theory Spec2Isabelle
  imports Main
begin

section \<open>Python exceptions as values\<close>

text \<open>
  The script \<^verbatim>\<open>phosphonet.py\<close> has no \<^verbatim>\<open>try\<close> block: an exception raised anywhere
  ends the interpreter. Every function of the model returns \<open>exn + 'a\<close>, with \<open>Inl\<close>
  for the exception that the Python code raises at that point. Python has a single
  \<^verbatim>\<open>ValueError\<close> class; the argument records which operation raised it.
\<close>

datatype value_error =
    NotInList        \<comment> \<open>\<^verbatim>\<open>list.index\<close>: the value is not in the list\<close>
  | CannotReshape    \<comment> \<open>\<^verbatim>\<open>ndarray.reshape\<close>: the size does not fit the shape\<close>
  | LengthMismatch   \<comment> \<open>assigning \<^verbatim>\<open>df.columns\<close> a list of another length\<close>
  | InvalidLiteral   \<comment> \<open>\<^verbatim>\<open>astype\<close>: a text that is no integer\<close>
  | AlreadyExists    \<comment> \<open>\<^verbatim>\<open>df.insert\<close> of a column that is there already\<close>

datatype exn =
    UnboundLocalError
  | AttributeError
  | KeyError
  | IndexError
  | TypeError
  | ZeroDivisionError
  | ValueError value_error
  | NotModelled      \<comment> \<open>a pandas behaviour outside this model; shown unreachable below\<close>

definition and_then :: "exn + 'a \<Rightarrow> ('a \<Rightarrow> exn + 'b) \<Rightarrow> exn + 'b" where
  "and_then m f = (case m of Inl e \<Rightarrow> Inl e | Inr x \<Rightarrow> f x)"

section \<open>Constants of the script\<close>

definition phosphonet_base_url :: string where
  "phosphonet_base_url = ''http://www.phosphonet.ca/?search=''"

text \<open>The template \<^verbatim>\<open>'...?uni={}&ps={}'\<close> with its \<^verbatim>\<open>format\<close> method applied.\<close>

definition phosphonet_kinase_url :: "string \<Rightarrow> string \<Rightarrow> string" where
  "phosphonet_kinase_url uni ps =
     ''http://www.phosphonet.ca/kinasepredictor.aspx?uni='' @ uni @ ''&ps='' @ ps"

definition phos_site_class :: string where
  "phos_site_class = ''pSiteNameCol''"

definition num_kinases_per_phos :: nat where
  "num_kinases_per_phos = 50"

definition phos_column_values :: nat where
  "phos_column_values = 7"

section \<open>The web pages\<close>

text \<open>
  \<^verbatim>\<open>requests.get\<close> is a function from the URL to a response. Of a response the script
  reads the status code and two views of the parsed body, both computed by BeautifulSoup:
  the texts of the \<^verbatim>\<open>td\<close> elements of a given CSS class in document order
  (\<^verbatim>\<open>[x.get_text() for x in soup.findAll("td", {"class": c})]\<close>), and
  \<^verbatim>\<open>list(soup.html.stripped_strings)\<close>, which is \<open>None\<close> for a body without an
  \<^verbatim>\<open>html\<close> element (\<^verbatim>\<open>soup.html\<close> is then \<^verbatim>\<open>None\<close>). A request that fails in
  transport is not modelled.
\<close>

record response =
  status_code :: int
  td_texts :: "string \<Rightarrow> string list"
  stripped_strings :: "string list option"

section \<open>Lists and arrays\<close>

text \<open>\<^verbatim>\<open>xs.index(x)\<close>: the first position of \<open>x\<close>, \<open>None\<close> where Python raises.\<close>

fun list_index :: "'a list \<Rightarrow> 'a \<Rightarrow> nat option" where
  "list_index [] x = None"
| "list_index (y # ys) x = (if y = x then Some 0 else map_option Suc (list_index ys x))"

text \<open>\<^verbatim>\<open>xs[i:j]\<close> for \<open>0 \<le> i\<close>, \<open>0 \<le> j\<close>: a slice never raises, it is cut at the end of the list.\<close>

definition py_slice :: "'a list \<Rightarrow> nat \<Rightarrow> nat \<Rightarrow> 'a list" where
  "py_slice xs i j = take (j - i) (drop i xs)"

text \<open>
  The value that \<^verbatim>\<open>get_kinases\<close> returns is the Python list \<^verbatim>\<open>[]\<close> it starts with, or a
  two-dimensional numpy array of strings. An array is its shape and its items in C order
  (row-major), as \<^verbatim>\<open>order='C'\<close> lays them out.
\<close>

datatype kinase_array = PyList | Array2D nat nat "string list"

text \<open>\<^verbatim>\<open>np.array(xs).reshape((r, c), order='C')\<close> of a flat list of strings.\<close>

definition reshape :: "string list \<Rightarrow> nat \<Rightarrow> nat \<Rightarrow> exn + kinase_array" where
  "reshape xs r c =
     (if length xs = r * c then Inr (Array2D r c xs) else Inl (ValueError CannotReshape))"

text \<open>The item in row \<open>i\<close>, column \<open>j\<close> of an array (\<^verbatim>\<open>a[i, j]\<close>), for indices in range.\<close>

fun item :: "kinase_array \<Rightarrow> nat \<Rightarrow> nat \<Rightarrow> string option" where
  "item PyList i j = None"
| "item (Array2D r c xs) i j = (if i < r \<and> j < c \<and> i * c + j < length xs then Some (xs ! (i * c + j)) else None)"

section \<open>Kinase block extractor\<close>

definition get_kinases ::
  "(string \<Rightarrow> response) \<Rightarrow> string \<Rightarrow> string \<Rightarrow> (string \<Rightarrow> string \<Rightarrow> string) \<Rightarrow> exn + kinase_array"
where
  "get_kinases requests_get uniprot_id phospho_site base_url =
     (let kinase_begin_string = ''Kinase 1:'';
          string_array = PyList;
          url = base_url uniprot_id phospho_site;
          response = requests_get url
      in if status_code response = 200 then
           (case stripped_strings response of
              None \<Rightarrow> Inl AttributeError
            | Some strings \<Rightarrow>
                (case list_index strings kinase_begin_string of
                   None \<Rightarrow> Inl (ValueError NotInList)
                 | Some start_index \<Rightarrow>
                     (let end_index = num_kinases_per_phos * phos_column_values + start_index
                      in reshape (py_slice strings start_index end_index)
                           num_kinases_per_phos phos_column_values)))
         else Inr string_array)"

section \<open>Data frames\<close>

text \<open>
  A pandas \<^verbatim>\<open>DataFrame\<close> is the list of its columns in order, each with its label. The
  labels are column positions (a frame built from an array) or names. A column has
  one dtype: \<^verbatim>\<open>object\<close> holding Python strings, \<^verbatim>\<open>int64\<close> or \<^verbatim>\<open>int32\<close>. The row
  index is not modelled: the script never reads it and writes the file with
  \<^verbatim>\<open>index=False\<close>. \<^verbatim>\<open>pd.DataFrame()\<close> is the frame with no column.
\<close>

datatype label = Pos nat | Name string

datatype column = ObjCol "string list" | I64Col "int list" | I32Col "int list"

type_synonym dataframe = "(label \<times> column) list"

fun col_len :: "column \<Rightarrow> nat" where
  "col_len (ObjCol ss) = length ss"
| "col_len (I64Col ns) = length ns"
| "col_len (I32Col ns) = length ns"

fun nrows :: "dataframe \<Rightarrow> nat" where
  "nrows [] = 0"
| "nrows ((l, c) # df) = col_len c"

definition labels :: "dataframe \<Rightarrow> label list" where
  "labels df = map fst df"

text \<open>\<^verbatim>\<open>pd.DataFrame(a)\<close>: of \<^verbatim>\<open>[]\<close> the frame with no column, of a two-dimensional array
  one \<^verbatim>\<open>object\<close> column per array column, labelled \<open>0, 1, \<dots>\<close>.\<close>

fun DataFrame :: "kinase_array \<Rightarrow> dataframe" where
  "DataFrame PyList = []"
| "DataFrame (Array2D r c xs) =
     map (\<lambda>j. (Pos j, ObjCol (map (\<lambda>i. xs ! (i * c + j)) [0..<r]))) [0..<c]"

text \<open>\<^verbatim>\<open>df.empty\<close>: true when an axis has length 0.\<close>

definition empty :: "dataframe \<Rightarrow> bool" where
  "empty df = (df = [] \<or> nrows df = 0)"

text \<open>\<^verbatim>\<open>df.drop(ls, axis=1)\<close>: raises \<^verbatim>\<open>KeyError\<close> when a label is not a column.\<close>

definition drop_columns :: "label list \<Rightarrow> dataframe \<Rightarrow> exn + dataframe" where
  "drop_columns ls df =
     (if list_all (\<lambda>l. l \<in> set (labels df)) ls
      then Inr (filter (\<lambda>p. fst p \<notin> set ls) df)
      else Inl KeyError)"

text \<open>\<^verbatim>\<open>df.reset_index()\<close> of a frame with the default index \<open>0, 1, \<dots>\<close>: the index becomes
  the first column, of dtype \<^verbatim>\<open>int64\<close>.\<close>

definition reset_index :: "dataframe \<Rightarrow> dataframe" where
  "reset_index df = (Name ''index'', I64Col (map int [0..<nrows df])) # df"

text \<open>\<^verbatim>\<open>df.columns = names\<close>.\<close>

definition set_columns :: "string list \<Rightarrow> dataframe \<Rightarrow> exn + dataframe" where
  "set_columns names df =
     (if length names = length df then Inr (zip (map Name names) (map snd df))
      else Inl (ValueError LengthMismatch))"

text \<open>\<^verbatim>\<open>df[l]\<close> and \<^verbatim>\<open>df[l] = c\<close>: assignment replaces the column in place, or adds it
  as the last column.\<close>

definition getitem :: "dataframe \<Rightarrow> label \<Rightarrow> exn + column" where
  "getitem df l = (case map_of df l of None \<Rightarrow> Inl KeyError | Some c \<Rightarrow> Inr c)"

fun setitem :: "dataframe \<Rightarrow> label \<Rightarrow> column \<Rightarrow> dataframe" where
  "setitem [] l c = [(l, c)]"
| "setitem ((l', c') # df) l c = (if l' = l then (l, c) # df else (l', c') # setitem df l c)"

text \<open>\<^verbatim>\<open>col + n\<close>: on integers; a string plus an integer raises \<^verbatim>\<open>TypeError\<close>. The script
  adds 1 to row positions, far from the bounds of \<^verbatim>\<open>int64\<close>.\<close>

fun col_add :: "column \<Rightarrow> int \<Rightarrow> exn + column" where
  "col_add (ObjCol ss) n = Inl TypeError"
| "col_add (I64Col ns) n = Inr (I64Col (map (\<lambda>k. k + n) ns))"
| "col_add (I32Col ns) n = Inr (I32Col (map (\<lambda>k. k + n) ns))"

text \<open>\<^verbatim>\<open>df.insert(0, name, v)\<close> with a string \<open>v\<close>: a new first column that repeats \<open>v\<close>
  in every row.\<close>

definition insert0 :: "dataframe \<Rightarrow> string \<Rightarrow> string \<Rightarrow> exn + dataframe" where
  "insert0 df name v =
     (if Name name \<in> set (labels df) then Inl (ValueError AlreadyExists)
      else Inr ((Name name, ObjCol (replicate (nrows df) v)) # df))"

text \<open>
  \<^verbatim>\<open>pd.concat([a, b])\<close>. Two columns of one dtype are appended, as are two integer
  columns (to \<^verbatim>\<open>int64\<close> when the dtypes differ). Frames whose labels differ, and a
  string column met by an integer one, would need missing values and mixed columns,
  which this model has not: they are \<open>NotModelled\<close>, and the main loop never gets there
  (lemma \<open>site_loop_modelled\<close>).
\<close>

fun col_append :: "column \<Rightarrow> column \<Rightarrow> column option" where
  "col_append (ObjCol xs) (ObjCol ys) = Some (ObjCol (xs @ ys))"
| "col_append (I64Col xs) (I64Col ys) = Some (I64Col (xs @ ys))"
| "col_append (I32Col xs) (I32Col ys) = Some (I32Col (xs @ ys))"
| "col_append (I64Col xs) (I32Col ys) = Some (I64Col (xs @ ys))"
| "col_append (I32Col xs) (I64Col ys) = Some (I64Col (xs @ ys))"
| "col_append (ObjCol xs) c = None"
| "col_append c (ObjCol ys) = None"

fun concat_columns :: "dataframe \<Rightarrow> dataframe \<Rightarrow> dataframe option" where
  "concat_columns [] [] = Some []"
| "concat_columns ((l, c) # a) ((l', c') # b) =
     (if l = l' then
        (case col_append c c' of
           None \<Rightarrow> None
         | Some c'' \<Rightarrow> map_option (\<lambda>df. (l, c'') # df) (concat_columns a b))
      else None)"
| "concat_columns a b = None"

definition concat2 :: "dataframe \<Rightarrow> dataframe \<Rightarrow> exn + dataframe" where
  "concat2 a b = (case concat_columns a b of None \<Rightarrow> Inl NotModelled | Some df \<Rightarrow> Inr df)"

text \<open>
  \<^verbatim>\<open>col.astype(dtype='int32')\<close>. A column of strings is converted item by item, by numpy's
  conversion of a Python string to an \<^verbatim>\<open>int32\<close>, which is not code of this repository:
  it is the parameter \<open>to_int32\<close>, \<open>None\<close> where it raises. An \<^verbatim>\<open>int64\<close> column is cut to
  32 bits (two's complement), an \<^verbatim>\<open>int32\<close> column is returned as it is.
\<close>

definition wrap32 :: "int \<Rightarrow> int" where
  "wrap32 n = (n + 2 ^ 31) mod 2 ^ 32 - 2 ^ 31"

fun astype_int32 :: "(string \<Rightarrow> int option) \<Rightarrow> column \<Rightarrow> exn + column" where
  "astype_int32 to_int32 (ObjCol ss) =
     (if list_all (\<lambda>s. to_int32 s \<noteq> None) ss
      then Inr (I32Col (map (\<lambda>s. the (to_int32 s)) ss))
      else Inl (ValueError InvalidLiteral))"
| "astype_int32 to_int32 (I64Col ns) = Inr (I32Col (map wrap32 ns))"
| "astype_int32 to_int32 (I32Col ns) = Inr (I32Col ns)"

text \<open>\<^verbatim>\<open>col.str.replace(",", ";")\<close>: every comma of every string becomes a semicolon; the
  \<^verbatim>\<open>str\<close> accessor of an integer column raises \<^verbatim>\<open>AttributeError\<close>.\<close>

definition replace_comma :: "string \<Rightarrow> string" where
  "replace_comma s = map (\<lambda>ch. if ch = CHR '','' then CHR '';'' else ch) s"

fun str_replace_comma :: "column \<Rightarrow> exn + column" where
  "str_replace_comma (ObjCol ss) = Inr (ObjCol (map replace_comma ss))"
| "str_replace_comma (I64Col ns) = Inl AttributeError"
| "str_replace_comma (I32Col ns) = Inl AttributeError"

section \<open>Site extractor\<close>

text \<open>The local variable \<^verbatim>\<open>phospho_sites\<close> is assigned only inside the \<^verbatim>\<open>if\<close>; the
  \<^verbatim>\<open>return\<close> reads it in both cases.\<close>

definition get_phospho_sites ::
  "(string \<Rightarrow> response) \<Rightarrow> string \<Rightarrow> string \<Rightarrow> string \<Rightarrow> exn + string list"
where
  "get_phospho_sites requests_get uniprot_id base_url tag_class =
     (let url = base_url @ uniprot_id;
          response = requests_get url;
          phospho_sites =
            (if status_code response = 200 then Some (td_texts response tag_class) else None)
      in case phospho_sites of None \<Rightarrow> Inl UnboundLocalError | Some sites \<Rightarrow> Inr sites)"

section \<open>Record normalizer\<close>

text \<open>\<^verbatim>\<open>s[0]\<close> of a string raises \<^verbatim>\<open>IndexError\<close> on the empty string; \<^verbatim>\<open>s[1:]\<close> never
  raises.\<close>

definition str_first :: "string \<Rightarrow> exn + string" where
  "str_first s = (case s of [] \<Rightarrow> Inl IndexError | ch # _ \<Rightarrow> Inr [ch])"

definition kinase_array_to_df :: "kinase_array \<Rightarrow> string \<Rightarrow> string \<Rightarrow> exn + dataframe" where
  "kinase_array_to_df kinase_array uniprot_id phospho_site =
     (let df = DataFrame kinase_array in
      and_then (drop_columns [Pos 0, Pos 4, Pos 5] df) (\<lambda>df.
      let df = reset_index df in
      and_then (set_columns
        [''kinase_rank'', ''kinase_name'', ''kinase_id'', ''kinexus_score'', ''kinexus_score_v2''] df)
        (\<lambda>df.
      and_then (getitem df (Name ''kinase_rank'')) (\<lambda>rank.
      and_then (col_add rank 1) (\<lambda>rank.
      let df = setitem df (Name ''kinase_rank'') rank in
      and_then (insert0 df ''site'' (drop 1 phospho_site)) (\<lambda>df.
      and_then (str_first phospho_site) (\<lambda>aa.
      and_then (insert0 df ''aa'' aa) (\<lambda>df.
      insert0 df ''substrate'' uniprot_id))))))))"

section \<open>Table assembler\<close>

text \<open>The frame is changed in place, one column after the other; the result of the last
  statement, \<^verbatim>\<open>phos_df.reset_index(drop=True)\<close>, is thrown away, so it changes nothing.\<close>

definition typecast_phos_df :: "(string \<Rightarrow> int option) \<Rightarrow> dataframe \<Rightarrow> exn + dataframe" where
  "typecast_phos_df to_int32 phos_df =
     and_then (getitem phos_df (Name ''site'')) (\<lambda>c.
     and_then (astype_int32 to_int32 c) (\<lambda>c.
     let phos_df = setitem phos_df (Name ''site'') c in
     and_then (getitem phos_df (Name ''kinase_name'')) (\<lambda>c.
     and_then (str_replace_comma c) (\<lambda>c.
     let phos_df = setitem phos_df (Name ''kinase_name'') c in
     and_then (getitem phos_df (Name ''kinexus_score'')) (\<lambda>c.
     and_then (astype_int32 to_int32 c) (\<lambda>c.
     let phos_df = setitem phos_df (Name ''kinexus_score'') c in
     and_then (getitem phos_df (Name ''kinexus_score_v2'')) (\<lambda>c.
     and_then (astype_int32 to_int32 c) (\<lambda>c.
     let phos_df = setitem phos_df (Name ''kinexus_score_v2'') c in
     Inr phos_df))))))))"

section \<open>Run orchestrator\<close>

text \<open>
  The body of the inner loop for one site. The two \<^verbatim>\<open>sleep\<close> calls take time and
  change no value; of the pacing only \<^verbatim>\<open>(idx+1) % args.bs\<close> can raise, for a batch
  size of 0. The sleep bounds are taken to be non-negative.
\<close>

definition site_step ::
  "(string \<Rightarrow> response) \<Rightarrow> int \<Rightarrow> string \<Rightarrow> string \<Rightarrow> dataframe \<Rightarrow> exn + dataframe"
where
  "site_step requests_get bs uniprot_id site phospho_site_df =
     and_then (get_kinases requests_get uniprot_id site phosphonet_kinase_url) (\<lambda>kinases.
     and_then (kinase_array_to_df kinases uniprot_id site) (\<lambda>kinases.
     and_then (if empty phospho_site_df then Inr kinases
               else concat2 phospho_site_df kinases) (\<lambda>phospho_site_df.
     if bs = 0 then Inl ZeroDivisionError else Inr phospho_site_df)))"

fun site_loop ::
  "(string \<Rightarrow> response) \<Rightarrow> int \<Rightarrow> string \<Rightarrow> string list \<Rightarrow> dataframe \<Rightarrow> exn + dataframe"
where
  "site_loop requests_get bs uniprot_id [] phospho_site_df = Inr phospho_site_df"
| "site_loop requests_get bs uniprot_id (site # sites) phospho_site_df =
     (case site_step requests_get bs uniprot_id site phospho_site_df of
        Inl e \<Rightarrow> Inl e
      | Inr df \<Rightarrow> site_loop requests_get bs uniprot_id sites df)"

text \<open>The body of the outer loop up to the finished table of one identifier.\<close>

definition protein_table ::
  "(string \<Rightarrow> response) \<Rightarrow> (string \<Rightarrow> int option) \<Rightarrow> int \<Rightarrow> string \<Rightarrow> exn + dataframe"
where
  "protein_table requests_get to_int32 bs uniprot_id =
     and_then (get_phospho_sites requests_get uniprot_id phosphonet_base_url phos_site_class)
       (\<lambda>phospho_sites.
     and_then (site_loop requests_get bs uniprot_id phospho_sites []) (\<lambda>phospho_site_df.
     typecast_phos_df to_int32 phospho_site_df))"

text \<open>
  The outer loop over \<^verbatim>\<open>args.ids\<close>. The state is the list of the files written so far
  (path and table, in the order of writing); the result adds the exception that ended
  the script, if one did.
\<close>

fun main_loop ::
  "(string \<Rightarrow> response) \<Rightarrow> (string \<Rightarrow> int option) \<Rightarrow> int \<Rightarrow> string \<Rightarrow> string list \<Rightarrow>
   (string \<times> dataframe) list \<Rightarrow> (string \<times> dataframe) list \<times> exn option"
where
  "main_loop requests_get to_int32 bs outdir [] files = (files, None)"
| "main_loop requests_get to_int32 bs outdir (uniprot_id # ids) files =
     (case protein_table requests_get to_int32 bs uniprot_id of
        Inl e \<Rightarrow> (files, Some e)
      | Inr phospho_site_df \<Rightarrow>
          main_loop requests_get to_int32 bs outdir ids
            (files @ [(outdir @ ''/'' @ uniprot_id @ ''_phos_kinexus.csv'', phospho_site_df)]))"

section \<open>Column dtypes\<close>

text \<open>The labels of a frame with the dtype of each column, and those of the frame that
  \<open>kinase_array_to_df\<close> builds.\<close>

datatype dtype = object | int64 | int32

fun dtype_of :: "column \<Rightarrow> dtype" where
  "dtype_of (ObjCol ss) = object"
| "dtype_of (I64Col ns) = int64"
| "dtype_of (I32Col ns) = int32"

definition dtypes :: "dataframe \<Rightarrow> (label \<times> dtype) list" where
  "dtypes df = map (\<lambda>p. (fst p, dtype_of (snd p))) df"

definition kinase_dtypes :: "(label \<times> dtype) list" where
  "kinase_dtypes =
     [(Name ''substrate'', object), (Name ''aa'', object), (Name ''site'', object),
      (Name ''kinase_rank'', int64), (Name ''kinase_name'', object), (Name ''kinase_id'', object),
      (Name ''kinexus_score'', object), (Name ''kinexus_score_v2'', object)]"

text \<open>The column of a given name in the frame that a computation returns.\<close>

definition column_of :: "exn + dataframe \<Rightarrow> string \<Rightarrow> exn + column" where
  "column_of result name = and_then result (\<lambda>df. getitem df (Name name))"

section \<open>Concrete pages and runs\<close>

text \<open>Inputs on which the theorems below are evaluated. A prediction page lists, for each
  kinase, seven strings: the label \<^verbatim>\<open>Kinase n:\<close>, the name, the identifier, a score, two
  further descriptors and the second score.\<close>

definition kinase_row :: "string list" where
  "kinase_row = [''Kinase 1:'', ''EGFR'', ''K1'', ''950'', ''x'', ''y'', ''940'']"

definition block_tokens :: "string list" where
  "block_tokens = concat (replicate 50 kinase_row)"

definition kinase_page :: "string list \<Rightarrow> response" where
  "kinase_page tokens =
     \<lparr>status_code = 200, td_texts = (\<lambda>c. []), stripped_strings = Some tokens\<rparr>"

definition search_page :: "string list \<Rightarrow> response" where
  "search_page sites =
     \<lparr>status_code = 200,
      td_texts = (\<lambda>c. if c = phos_site_class then sites else []),
      stripped_strings = Some sites\<rparr>"

definition not_found_page :: response where
  "not_found_page = \<lparr>status_code = 404, td_texts = (\<lambda>c. []), stripped_strings = Some []\<rparr>"

definition always :: "response \<Rightarrow> string \<Rightarrow> response" where
  "always page url = page"

text \<open>
  An instance of the conversion \<open>to_int32\<close> for the concrete runs: the unsigned decimal
  literals below \<open>2^31\<close>, which every conversion of a string to \<^verbatim>\<open>int32\<close> accepts.
\<close>

fun decimal_value :: "string \<Rightarrow> int \<Rightarrow> int option" where
  "decimal_value [] n = Some n"
| "decimal_value (ch # s) n =
     (if (48::nat) \<le> of_char ch \<and> (of_char ch :: nat) \<le> 57
      then decimal_value s (10 * n + (of_char ch - 48)) else None)"

definition decimal_int32 :: "string \<Rightarrow> int option" where
  "decimal_int32 s =
     (if s = [] then None
      else case decimal_value s 0 of
             None \<Rightarrow> None
           | Some n \<Rightarrow> if n < 2 ^ 31 then Some n else None)"

text \<open>A protein with two sites: the prediction page of the first answers 404, that of
  the second is a full block.\<close>

definition site_unavailable_web :: "string \<Rightarrow> response" where
  "site_unavailable_web url =
     (if url = phosphonet_base_url @ ''P00533'' then search_page [''Y845'', ''S1070'']
      else if url = phosphonet_kinase_url ''P00533'' ''S1070'' then kinase_page block_tokens
      else not_found_page)"

text \<open>Two proteins: the only prediction page of \<^verbatim>\<open>Q00001\<close> lacks the marker, the only one
  of \<^verbatim>\<open>P00533\<close> is a full block.\<close>

definition two_proteins_web :: "string \<Rightarrow> response" where
  "two_proteins_web url =
     (if url = phosphonet_base_url @ ''Q00001'' then search_page [''S1'']
      else if url = phosphonet_kinase_url ''Q00001'' ''S1'' then kinase_page [''no'', ''marker'']
      else if url = phosphonet_base_url @ ''P00533'' then search_page [''Y845'']
      else if url = phosphonet_kinase_url ''P00533'' ''Y845'' then kinase_page block_tokens
      else not_found_page)"

text \<open>A table of two rows as the record normalizer leaves it, and the same table cast.\<close>

definition raw_table :: dataframe where
  "raw_table =
     [(Name ''substrate'', ObjCol [''P00533'', ''P00533'']),
      (Name ''aa'', ObjCol [''Y'', ''Y'']),
      (Name ''site'', ObjCol [''845'', ''845'']),
      (Name ''kinase_rank'', I64Col [1, 2]),
      (Name ''kinase_name'', ObjCol [''Kin,aseA'', ''EGFR'']),
      (Name ''kinase_id'', ObjCol [''K7'', ''K1'']),
      (Name ''kinexus_score'', ObjCol [''950'', ''900'']),
      (Name ''kinexus_score_v2'', ObjCol [''940'', ''890''])]"

definition cast_table :: dataframe where
  "cast_table =
     [(Name ''substrate'', ObjCol [''P00533'', ''P00533'']),
      (Name ''aa'', ObjCol [''Y'', ''Y'']),
      (Name ''site'', I32Col [845, 845]),
      (Name ''kinase_rank'', I64Col [1, 2]),
      (Name ''kinase_name'', ObjCol [''Kin;aseA'', ''EGFR'']),
      (Name ''kinase_id'', ObjCol [''K7'', ''K1'']),
      (Name ''kinexus_score'', I32Col [950, 900]),
      (Name ''kinexus_score_v2'', I32Col [940, 890])]"

text \<open>The finished table of a protein \<^verbatim>\<open>P00533\<close> with the one site \<^verbatim>\<open>Y845\<close>, whose
  prediction page is the full block above.\<close>

definition egfr_table :: dataframe where
  "egfr_table =
     [(Name ''substrate'', ObjCol (replicate 50 ''P00533'')),
      (Name ''aa'', ObjCol (replicate 50 ''Y'')),
      (Name ''site'', I32Col (replicate 50 845)),
      (Name ''kinase_rank'', I64Col (map int [1..<51])),
      (Name ''kinase_name'', ObjCol (replicate 50 ''EGFR'')),
      (Name ''kinase_id'', ObjCol (replicate 50 ''K1'')),
      (Name ''kinexus_score'', I32Col (replicate 50 950)),
      (Name ''kinexus_score_v2'', I32Col (replicate 50 940))]"

section \<open>Properties of the list and array operations\<close>

lemma list_index_None_iff: "list_index xs x = None \<longleftrightarrow> x \<notin> set xs"
  by (induction xs) auto

lemma list_index_Some_iff:
  "list_index xs x = Some k \<longleftrightarrow> k < length xs \<and> xs ! k = x \<and> x \<notin> set (take k xs)"
proof (induction xs arbitrary: k)
  case Nil
  then show ?case by simp
next
  case (Cons y ys)
  show ?case
  proof (cases "y = x")
    case True
    then show ?thesis by (cases k) auto
  next
    case False
    then show ?thesis using Cons.IH by (cases k) auto
  qed
qed

section \<open>The kinase block\<close>

text \<open>On a page that answers 200 and holds the marker at first position \<open>k\<close>, the result
  depends only on whether 350 strings are there from position \<open>k\<close> on.\<close>

lemma get_kinases_ok:
  assumes "status_code (requests_get (base_url uid site)) = 200"
      and "stripped_strings (requests_get (base_url uid site)) = Some strings"
      and "list_index strings ''Kinase 1:'' = Some k"
  shows "get_kinases requests_get uid site base_url =
     (if k + 350 \<le> length strings then Inr (Array2D 50 7 (take 350 (drop k strings)))
      else Inl (ValueError CannotReshape))"
  using assms
  by (auto simp: get_kinases_def Let_def reshape_def py_slice_def num_kinases_per_phos_def
       phos_column_values_def)

text \<open>
  C1 (as the code has it). For a prediction page that answers 200, whose strings hold
  the marker \<^verbatim>\<open>Kinase 1:\<close> first at position \<open>k\<close> and number at least \<open>k + 350\<close>,
  \<open>get_kinases\<close> takes the 350 strings that start at the marker itself and lays them out
  row-major in 50 rows of 7: row 0, column 0 is the marker, and row \<open>i\<close>, column \<open>j\<close> is
  the string at position \<open>k + 7 i + j\<close>.
\<close>

theorem get_kinases_block_from_marker:
  assumes "status_code (requests_get (base_url uid site)) = 200"
      and "stripped_strings (requests_get (base_url uid site)) = Some strings"
      and "list_index strings ''Kinase 1:'' = Some k"
      and "k + 350 \<le> length strings"
  shows "get_kinases requests_get uid site base_url = Inr (Array2D 50 7 (take 350 (drop k strings)))
       \<and> item (Array2D 50 7 (take 350 (drop k strings))) 0 0 = Some ''Kinase 1:''
       \<and> (\<forall>i<50. \<forall>j<7. item (Array2D 50 7 (take 350 (drop k strings))) i j
             = Some (strings ! (k + (i * 7 + j))))"
proof -
  have len: "length (take 350 (drop k strings)) = 350" using assms(4) by simp
  have first: "strings ! k = ''Kinase 1:''" using assms(3) by (simp add: list_index_Some_iff)
  have items: "item (Array2D 50 7 (take 350 (drop k strings))) i j = Some (strings ! (k + (i * 7 + j)))"
    if "i < 50" "j < 7" for i j
  proof -
    have "i * 7 + j < 350" using that by arith
    then show ?thesis using that len assms(4) by simp
  qed
  have "item (Array2D 50 7 (take 350 (drop k strings))) 0 0 = Some (strings ! (k + (0 * 7 + 0)))"
    by (rule items) simp_all
  moreover have "get_kinases requests_get uid site base_url =
      Inr (Array2D 50 7 (take 350 (drop k strings)))"
    using get_kinases_ok[where requests_get = requests_get and base_url = base_url
        and uid = uid and site = site and strings = strings and k = k] assms by simp
  ultimately show ?thesis using first items by simp
qed

theorem get_kinases_block_from_marker_witness:
  "status_code (always (kinase_page (block_tokens @ [''end''])) (phosphonet_kinase_url ''P00533'' ''Y845'')) = 200
   \<and> stripped_strings (always (kinase_page (block_tokens @ [''end''])) (phosphonet_kinase_url ''P00533'' ''Y845''))
       = Some (block_tokens @ [''end''])
   \<and> list_index (block_tokens @ [''end'']) ''Kinase 1:'' = Some 0
   \<and> 0 + 350 \<le> length (block_tokens @ [''end''])
   \<and> get_kinases (always (kinase_page (block_tokens @ [''end''])))  ''P00533'' ''Y845'' phosphonet_kinase_url
       = Inr (Array2D 50 7 (take 350 (drop 0 (block_tokens @ [''end'']))))
   \<and> item (Array2D 50 7 (take 350 (drop 0 (block_tokens @ [''end''])))) 0 0 = Some ''Kinase 1:''"
proof -
  have h1: "status_code (always (kinase_page (block_tokens @ [''end'']))
              (phosphonet_kinase_url ''P00533'' ''Y845'')) = 200"
    by (simp add: always_def kinase_page_def)
  have h2: "stripped_strings (always (kinase_page (block_tokens @ [''end'']))
              (phosphonet_kinase_url ''P00533'' ''Y845'')) = Some (block_tokens @ [''end''])"
    by (simp add: always_def kinase_page_def)
  have h3: "list_index (block_tokens @ [''end'']) ''Kinase 1:'' = Some 0"
    by code_simp
  have h4: "0 + 350 \<le> length (block_tokens @ [''end''])"
    by code_simp
  show ?thesis
    using get_kinases_block_from_marker[where requests_get = "always (kinase_page (block_tokens @ [''end'']))"
        and base_url = phosphonet_kinase_url and uid = "''P00533''" and site = "''Y845''"
        and strings = "block_tokens @ [''end'']" and k = 0, OF h1 h2 h3 h4] h1 h2 h3 h4
    by blast
qed

text \<open>
  C1 as the specification words it fails: on a page whose strings are the marker, the
  349 further strings of a block and one string more, the block is not the 350 strings
  that follow the marker; it starts with the marker.
\<close>

theorem get_kinases_after_marker_counterexample:
  "list_index (block_tokens @ [''end'']) ''Kinase 1:'' = Some 0
   \<and> get_kinases (always (kinase_page (block_tokens @ [''end''])))  ''P00533'' ''Y845'' phosphonet_kinase_url
       = Inr (Array2D 50 7 (py_slice (block_tokens @ [''end'']) 0 350))
   \<and> get_kinases (always (kinase_page (block_tokens @ [''end''])))  ''P00533'' ''Y845'' phosphonet_kinase_url
       \<noteq> Inr (Array2D 50 7 (py_slice (block_tokens @ [''end'']) 1 351))
   \<and> item (Array2D 50 7 (py_slice (block_tokens @ [''end'']) 0 350)) 0 0 = Some ''Kinase 1:''
   \<and> item (Array2D 50 7 (py_slice (block_tokens @ [''end'']) 1 351)) 0 0 = Some ''EGFR''"
  by code_simp

text \<open>
  C5 (as the code has it). For a prediction page that answers 200 and whose strings
  hold the marker first at position \<open>k\<close>, with fewer than 350 strings from position
  \<open>k\<close> on (the marker counted, so fewer than 349 after it), \<open>get_kinases\<close> raises the
  \<^verbatim>\<open>ValueError\<close> of \<^verbatim>\<open>reshape\<close>: the slice is cut short, and it is neither returned as
  a shorter block nor padded.
\<close>

theorem get_kinases_short_block:
  assumes "status_code (requests_get (base_url uid site)) = 200"
      and "stripped_strings (requests_get (base_url uid site)) = Some strings"
      and "list_index strings ''Kinase 1:'' = Some k"
      and "length strings < k + 350"
  shows "get_kinases requests_get uid site base_url = Inl (ValueError CannotReshape)"
  using get_kinases_ok[where requests_get = requests_get and base_url = base_url
        and uid = uid and site = site and strings = strings and k = k] assms by simp

theorem get_kinases_short_block_witness:
  "status_code (always (kinase_page (take 300 block_tokens)) (phosphonet_kinase_url ''P00533'' ''Y845'')) = 200
   \<and> stripped_strings (always (kinase_page (take 300 block_tokens)) (phosphonet_kinase_url ''P00533'' ''Y845''))
       = Some (take 300 block_tokens)
   \<and> list_index (take 300 block_tokens) ''Kinase 1:'' = Some 0
   \<and> length (take 300 block_tokens) < 0 + 350
   \<and> get_kinases (always (kinase_page (take 300 block_tokens))) ''P00533'' ''Y845'' phosphonet_kinase_url
       = Inl (ValueError CannotReshape)"
proof -
  have h1: "status_code (always (kinase_page (take 300 block_tokens))
              (phosphonet_kinase_url ''P00533'' ''Y845'')) = 200"
    by (simp add: always_def kinase_page_def)
  have h2: "stripped_strings (always (kinase_page (take 300 block_tokens))
              (phosphonet_kinase_url ''P00533'' ''Y845'')) = Some (take 300 block_tokens)"
    by (simp add: always_def kinase_page_def)
  have h3: "list_index (take 300 block_tokens) ''Kinase 1:'' = Some 0"
    by code_simp
  have h4: "length (take 300 block_tokens) < 0 + 350"
    by simp
  show ?thesis
    using get_kinases_short_block[where requests_get = "always (kinase_page (take 300 block_tokens))"
        and base_url = phosphonet_kinase_url and uid = "''P00533''" and site = "''Y845''"
        and strings = "take 300 block_tokens" and k = 0, OF h1 h2 h3 h4] h1 h2 h3 h4
    by blast
qed

text \<open>
  C5 as the specification words it fails: a page whose strings are the marker and 349
  strings after it has fewer than 350 strings after the marker, and \<open>get_kinases\<close>
  returns a block of it without an error.
\<close>

theorem get_kinases_349_after_marker_counterexample:
  "list_index block_tokens ''Kinase 1:'' = Some 0
   \<and> length (drop (0 + 1) block_tokens) = 349
   \<and> get_kinases (always (kinase_page block_tokens)) ''P00533'' ''Y845'' phosphonet_kinase_url
       = Inr (Array2D 50 7 block_tokens)"
  by code_simp

section \<open>The record normalizer\<close>

lemma and_then_Inr_iff: "and_then m f = Inr y \<longleftrightarrow> (\<exists>x. m = Inr x \<and> f x = Inr y)"
  by (cases m) (simp_all add: and_then_def)

lemma and_then_Inr [simp]: "and_then (Inr x) f = f x"
  by (simp add: and_then_def)

lemma and_then_Inl [simp]: "and_then (Inl e) f = Inl e"
  by (simp add: and_then_def)

lemma upt_0_7: "[0..<7] = [0, 1, 2, 3, 4, 5, 6::nat]"
  by code_simp

lemma DataFrame_50_7:
  "DataFrame (Array2D 50 7 xs) =
     [(Pos 0, ObjCol (map (\<lambda>i. xs ! (i * 7 + 0)) [0..<50])),
      (Pos 1, ObjCol (map (\<lambda>i. xs ! (i * 7 + 1)) [0..<50])),
      (Pos 2, ObjCol (map (\<lambda>i. xs ! (i * 7 + 2)) [0..<50])),
      (Pos 3, ObjCol (map (\<lambda>i. xs ! (i * 7 + 3)) [0..<50])),
      (Pos 4, ObjCol (map (\<lambda>i. xs ! (i * 7 + 4)) [0..<50])),
      (Pos 5, ObjCol (map (\<lambda>i. xs ! (i * 7 + 5)) [0..<50])),
      (Pos 6, ObjCol (map (\<lambda>i. xs ! (i * 7 + 6)) [0..<50]))]"
  by (simp add: upt_0_7)

lemma kinase_array_to_df_50_7:
  assumes "phospho_site = ch # pos"
  shows "kinase_array_to_df (Array2D 50 7 xs) uniprot_id phospho_site = Inr
     [(Name ''substrate'', ObjCol (replicate 50 uniprot_id)),
      (Name ''aa'', ObjCol (replicate 50 [ch])),
      (Name ''site'', ObjCol (replicate 50 pos)),
      (Name ''kinase_rank'', I64Col (map (\<lambda>i. int i + 1) [0..<50])),
      (Name ''kinase_name'', ObjCol (map (\<lambda>i. xs ! (i * 7 + 1)) [0..<50])),
      (Name ''kinase_id'', ObjCol (map (\<lambda>i. xs ! (i * 7 + 2)) [0..<50])),
      (Name ''kinexus_score'', ObjCol (map (\<lambda>i. xs ! (i * 7 + 3)) [0..<50])),
      (Name ''kinexus_score_v2'', ObjCol (map (\<lambda>i. xs ! (i * 7 + 6)) [0..<50]))]"
  unfolding kinase_array_to_df_def DataFrame_50_7 Let_def
  by (simp add: assms drop_columns_def labels_def reset_index_def set_columns_def getitem_def
      insert0_def str_first_def)

lemma kinase_array_to_df_PyList: "kinase_array_to_df PyList uid site = Inl KeyError"
  by (simp add: kinase_array_to_df_def drop_columns_def labels_def)

lemma kinase_array_to_df_no_site: "kinase_array_to_df (Array2D 50 7 xs) uid [] = Inl IndexError"
  unfolding kinase_array_to_df_def DataFrame_50_7 Let_def
  by (simp add: drop_columns_def labels_def reset_index_def set_columns_def getitem_def
      insert0_def str_first_def)

text \<open>
  C2 (as the code has it). For every 50 by 7 array (350 items, row \<open>i\<close> column \<open>j\<close> at
  \<open>xs ! (7 i + j)\<close>), protein id and non-empty site label, \<open>kinase_array_to_df\<close> returns
  a frame of 50 rows in which row \<open>i\<close> has \<open>kinase_rank = i + 1\<close> (so 1 to 50, ascending),
  \<open>kinase_name\<close> = column 1, \<open>kinase_id\<close> = column 2, \<open>kinexus_score\<close> = column 3 and
  \<open>kinexus_score_v2\<close> = column 6; columns 0, 4 and 5 are dropped. Every row has
  \<open>substrate\<close> = the protein id, \<open>aa\<close> = the first character of the site label and \<open>site\<close> =
  the rest of it.
\<close>

theorem kinase_array_to_df_records:
  assumes "length xs = 350" and "phospho_site \<noteq> []"
  shows "kinase_array_to_df (Array2D 50 7 xs) uniprot_id phospho_site = Inr
     [(Name ''substrate'', ObjCol (replicate 50 uniprot_id)),
      (Name ''aa'', ObjCol (replicate 50 [hd phospho_site])),
      (Name ''site'', ObjCol (replicate 50 (tl phospho_site))),
      (Name ''kinase_rank'', I64Col (map (\<lambda>i. int i + 1) [0..<50])),
      (Name ''kinase_name'', ObjCol (map (\<lambda>i. xs ! (i * 7 + 1)) [0..<50])),
      (Name ''kinase_id'', ObjCol (map (\<lambda>i. xs ! (i * 7 + 2)) [0..<50])),
      (Name ''kinexus_score'', ObjCol (map (\<lambda>i. xs ! (i * 7 + 3)) [0..<50])),
      (Name ''kinexus_score_v2'', ObjCol (map (\<lambda>i. xs ! (i * 7 + 6)) [0..<50]))]"
proof -
  from assms(2) have "phospho_site = hd phospho_site # tl phospho_site" by simp
  then show ?thesis by (rule kinase_array_to_df_50_7)
qed

theorem kinase_array_to_df_records_witness:
  "length block_tokens = 350 \<and> ''Y845'' \<noteq> []
   \<and> kinase_array_to_df (Array2D 50 7 block_tokens) ''P00533'' ''Y845'' = Inr
     [(Name ''substrate'', ObjCol (replicate 50 ''P00533'')),
      (Name ''aa'', ObjCol (replicate 50 [hd ''Y845''])),
      (Name ''site'', ObjCol (replicate 50 (tl ''Y845''))),
      (Name ''kinase_rank'', I64Col (map (\<lambda>i. int i + 1) [0..<50])),
      (Name ''kinase_name'', ObjCol (map (\<lambda>i. block_tokens ! (i * 7 + 1)) [0..<50])),
      (Name ''kinase_id'', ObjCol (map (\<lambda>i. block_tokens ! (i * 7 + 2)) [0..<50])),
      (Name ''kinexus_score'', ObjCol (map (\<lambda>i. block_tokens ! (i * 7 + 3)) [0..<50])),
      (Name ''kinexus_score_v2'', ObjCol (map (\<lambda>i. block_tokens ! (i * 7 + 6)) [0..<50]))]"
proof -
  have h1: "length block_tokens = 350" by code_simp
  have h2: "''Y845'' \<noteq> []" by simp
  show ?thesis
    using kinase_array_to_df_records[OF h1 h2, of "''P00533''"] h1 h2 by blast
qed

text \<open>
  C2 as the specification words it fails: on the block whose rows are
  \<^verbatim>\<open>Kinase 1:, EGFR, K1, 950, x, y, 940\<close>, column 4 is \<^verbatim>\<open>x\<close> and column 6 is \<^verbatim>\<open>940\<close>,
  and \<open>kinexus_score_v2\<close> is column 6 in every row, not column 4.
\<close>

theorem kinase_array_to_df_score_v2_counterexample:
  "item (Array2D 50 7 block_tokens) 0 4 = Some ''x''
   \<and> item (Array2D 50 7 block_tokens) 0 6 = Some ''940''
   \<and> column_of (kinase_array_to_df (Array2D 50 7 block_tokens) ''P00533'' ''Y845'') ''kinexus_score_v2''
       = Inr (ObjCol (replicate 50 ''940''))
   \<and> column_of (kinase_array_to_df (Array2D 50 7 block_tokens) ''P00533'' ''Y845'') ''kinexus_score_v2''
       \<noteq> Inr (ObjCol (replicate 50 ''x''))"
  by code_simp

section \<open>Pages that do not answer 200\<close>

lemma get_phospho_sites_unavailable:
  "status_code (requests_get (base_url @ uid)) \<noteq> 200 \<Longrightarrow>
   get_phospho_sites requests_get uid base_url tag_class = Inl UnboundLocalError"
  by (simp add: get_phospho_sites_def Let_def)

lemma get_phospho_sites_ok:
  "status_code (requests_get (base_url @ uid)) = 200 \<Longrightarrow>
   get_phospho_sites requests_get uid base_url tag_class
     = Inr (td_texts (requests_get (base_url @ uid)) tag_class)"
  by (simp add: get_phospho_sites_def Let_def)

lemma get_kinases_unavailable:
  "status_code (requests_get (base_url uid site)) \<noteq> 200 \<Longrightarrow>
   get_kinases requests_get uid site base_url = Inr PyList"
  by (simp add: get_kinases_def Let_def)

text \<open>A site whose prediction page does not answer 200 ends the inner loop with the
  \<^verbatim>\<open>KeyError\<close> of \<^verbatim>\<open>df.drop\<close>, whatever the sites after it.\<close>

lemma site_loop_unavailable:
  "status_code (requests_get (phosphonet_kinase_url uid site)) \<noteq> 200 \<Longrightarrow>
   site_loop requests_get bs uid (site # sites) df = Inl KeyError"
  by (simp add: site_step_def get_kinases_unavailable kinase_array_to_df_PyList)

text \<open>
  C3, evaluated on the code: when the search page answers 404, \<open>get_phospho_sites\<close>
  returns no empty list; it raises \<^verbatim>\<open>UnboundLocalError\<close>, and the run over the one
  identifier ends with that exception and no file.
\<close>

theorem get_phospho_sites_not_found_run:
  "get_phospho_sites (always not_found_page) ''P00533'' phosphonet_base_url phos_site_class
     = Inl UnboundLocalError
   \<and> main_loop (always not_found_page) decimal_int32 30 ''.'' [''P00533''] []
     = ([], Some UnboundLocalError)"
  by code_simp

text \<open>
  C4, evaluated on the code: for a protein with the sites \<^verbatim>\<open>Y845\<close> and \<^verbatim>\<open>S1070\<close>, where the
  prediction page of \<^verbatim>\<open>Y845\<close> answers 404 and that of \<^verbatim>\<open>S1070\<close> is a full block,
  \<open>get_kinases\<close> returns the empty list for \<^verbatim>\<open>Y845\<close>, \<open>kinase_array_to_df\<close> raises
  \<^verbatim>\<open>KeyError\<close> on it, and the run ends there with no file: the site is not skipped and
  \<^verbatim>\<open>S1070\<close> is never queried.
\<close>

theorem get_kinases_not_found_run:
  "get_kinases site_unavailable_web ''P00533'' ''Y845'' phosphonet_kinase_url = Inr PyList
   \<and> kinase_array_to_df PyList ''P00533'' ''Y845'' = Inl KeyError
   \<and> site_loop site_unavailable_web 30 ''P00533'' [''Y845'', ''S1070''] [] = Inl KeyError
   \<and> main_loop site_unavailable_web decimal_int32 30 ''.'' [''P00533''] [] = ([], Some KeyError)"
  by code_simp

text \<open>
  C7, evaluated on the code: when the search page answers 200 and holds no site, the
  site list is empty, the inner loop leaves the frame without columns, and
  \<open>typecast_phos_df\<close> raises \<^verbatim>\<open>KeyError\<close> on it: the run ends with no file for the protein.
\<close>

theorem no_sites_run:
  "get_phospho_sites (always (search_page [])) ''P00533'' phosphonet_base_url phos_site_class = Inr []
   \<and> site_loop (always (search_page [])) 30 ''P00533'' [] [] = Inr []
   \<and> typecast_phos_df decimal_int32 [] = Inl KeyError
   \<and> main_loop (always (search_page [])) decimal_int32 30 ''.'' [''P00533''] [] = ([], Some KeyError)"
  by code_simp

section \<open>The outer loop\<close>

lemma protein_table_P00533:
  "protein_table two_proteins_web decimal_int32 30 ''P00533'' = Inr egfr_table"
  by code_simp

lemma protein_table_Q00001:
  "protein_table two_proteins_web decimal_int32 30 ''Q00001'' = Inl (ValueError NotInList)"
  by code_simp

lemma main_loop_append:
  "main_loop rg conv bs outdir (pre @ post) files =
     (case main_loop rg conv bs outdir pre files of
        (files', None) \<Rightarrow> main_loop rg conv bs outdir post files'
      | (files', Some e) \<Rightarrow> (files', Some e))"
  by (induction pre arbitrary: files) (auto split: sum.splits)

text \<open>
  C6 (as the code has it). The script catches no exception: when the identifiers before
  \<open>uid\<close> have been processed without one, leaving the files \<open>files'\<close>, and the processing
  of \<open>uid\<close> raises \<open>e\<close> (a missing marker, a short block, a failed conversion or any
  other), the run ends there with \<open>e\<close>. No file is written for \<open>uid\<close>, and none for any
  identifier after it; the files written before stay.
\<close>

theorem main_loop_aborts:
  assumes "main_loop rg conv bs outdir pre files = (files', None)"
      and "protein_table rg conv bs uid = Inl e"
  shows "main_loop rg conv bs outdir (pre @ uid # rest) files = (files', Some e)"
  using assms by (simp add: main_loop_append)

theorem main_loop_aborts_witness:
  "main_loop two_proteins_web decimal_int32 30 ''.'' [''P00533''] []
     = ([(''./P00533_phos_kinexus.csv'', egfr_table)], None)
   \<and> protein_table two_proteins_web decimal_int32 30 ''Q00001'' = Inl (ValueError NotInList)
   \<and> main_loop two_proteins_web decimal_int32 30 ''.'' ([''P00533''] @ ''Q00001'' # [''P00533'']) []
     = ([(''./P00533_phos_kinexus.csv'', egfr_table)], Some (ValueError NotInList))"
proof -
  have h1: "main_loop two_proteins_web decimal_int32 30 ''.'' [''P00533''] []
     = ([(''./P00533_phos_kinexus.csv'', egfr_table)], None)"
    by (simp add: protein_table_P00533)
  have h2: "protein_table two_proteins_web decimal_int32 30 ''Q00001'' = Inl (ValueError NotInList)"
    by (rule protein_table_Q00001)
  show ?thesis
    using main_loop_aborts[OF h1 h2, of "[''P00533'']"] h1 h2 by blast
qed

text \<open>
  C6 as the specification words it fails: in a run over \<^verbatim>\<open>Q00001\<close>, whose prediction page
  lacks the marker, and then \<^verbatim>\<open>P00533\<close>, which alone yields a table, the run ends at
  \<^verbatim>\<open>Q00001\<close> with the \<^verbatim>\<open>ValueError\<close> of \<^verbatim>\<open>list.index\<close> and writes no file for \<^verbatim>\<open>P00533\<close>.
\<close>

theorem main_loop_next_protein_counterexample:
  "main_loop two_proteins_web decimal_int32 30 ''.'' [''Q00001'', ''P00533''] []
     = ([], Some (ValueError NotInList))
   \<and> protein_table two_proteins_web decimal_int32 30 ''P00533'' = Inr egfr_table"
  by (simp add: protein_table_Q00001 protein_table_P00533)

section \<open>The table assembler\<close>

text \<open>Reading and assigning columns.\<close>

lemma getitem_Nil [simp]: "getitem [] l = Inl KeyError"
  by (simp add: getitem_def)

lemma getitem_setitem_same: "getitem (setitem df l c) l = Inr c"
  by (induction df) (auto simp: getitem_def)

lemma getitem_setitem_other: "l' \<noteq> l \<Longrightarrow> getitem (setitem df l c) l' = getitem df l'"
  by (induction df) (auto simp: getitem_def)

lemma setitem_triv: "getitem df l = Inr c \<Longrightarrow> setitem df l c = df"
  by (induction df) (auto simp: getitem_def split: option.splits if_splits)





lemma astype_int32_idem: "astype_int32 conv c = Inr c' \<Longrightarrow> astype_int32 conv c' = Inr c'"
  by (cases c) (auto split: if_splits)

lemma replace_comma_idem: "replace_comma (replace_comma s) = replace_comma s"
  by (simp add: replace_comma_def)

lemma replace_comma_no_comma: "CHR '','' \<notin> set (replace_comma s)"
  by (auto simp: replace_comma_def)

lemma str_replace_comma_idem:
  "str_replace_comma c = Inr c' \<Longrightarrow> str_replace_comma c' = Inr c'"
  by (cases c) (auto simp: replace_comma_idem)


lemma typecast_phos_df_Inr:
  assumes "typecast_phos_df conv df = Inr df'"
  obtains s s' n n' k k' v v' where
    "getitem df (Name ''site'') = Inr s" "astype_int32 conv s = Inr s'"
    "getitem df (Name ''kinase_name'') = Inr n" "str_replace_comma n = Inr n'"
    "getitem df (Name ''kinexus_score'') = Inr k" "astype_int32 conv k = Inr k'"
    "getitem df (Name ''kinexus_score_v2'') = Inr v" "astype_int32 conv v = Inr v'"
    "df' = setitem (setitem (setitem (setitem df (Name ''site'') s') (Name ''kinase_name'') n')
              (Name ''kinexus_score'') k') (Name ''kinexus_score_v2'') v'"
  using assms
  unfolding typecast_phos_df_def Let_def and_then_Inr_iff
  by (auto simp: getitem_setitem_other)


lemma replace_comma_nth:
  "i < length s \<Longrightarrow> replace_comma s ! i = (if s ! i = CHR '','' then CHR '';'' else s ! i)"
  by (simp add: replace_comma_def)

lemma length_replace_comma: "length (replace_comma s) = length s"
  by (simp add: replace_comma_def)

lemma typecast_raw_table: "typecast_phos_df decimal_int32 raw_table = Inr cast_table"
  by code_simp

text \<open>
  C8. \<open>typecast_phos_df\<close> is idempotent: on the table that it returns for a table it
  accepts, it returns that same table. This holds for every conversion of strings to
  \<^verbatim>\<open>int32\<close>.
\<close>

theorem typecast_phos_df_idempotent:
  assumes "typecast_phos_df conv df = Inr df'"
  shows "typecast_phos_df conv df' = Inr df'"
proof -
  from assms obtain s s' n n' k k' v v' where h:
    "getitem df (Name ''site'') = Inr s" "astype_int32 conv s = Inr s'"
    "getitem df (Name ''kinase_name'') = Inr n" "str_replace_comma n = Inr n'"
    "getitem df (Name ''kinexus_score'') = Inr k" "astype_int32 conv k = Inr k'"
    "getitem df (Name ''kinexus_score_v2'') = Inr v" "astype_int32 conv v = Inr v'"
    and df': "df' = setitem (setitem (setitem (setitem df (Name ''site'') s') (Name ''kinase_name'') n')
              (Name ''kinexus_score'') k') (Name ''kinexus_score_v2'') v'"
    by (rule typecast_phos_df_Inr)
  have g1: "getitem df' (Name ''site'') = Inr s'"
    by (simp add: df' getitem_setitem_other getitem_setitem_same)
  have g2: "getitem df' (Name ''kinase_name'') = Inr n'"
    by (simp add: df' getitem_setitem_other getitem_setitem_same)
  have g3: "getitem df' (Name ''kinexus_score'') = Inr k'"
    by (simp add: df' getitem_setitem_other getitem_setitem_same)
  have g4: "getitem df' (Name ''kinexus_score_v2'') = Inr v'"
    by (simp add: df' getitem_setitem_other getitem_setitem_same)
  show ?thesis
    unfolding typecast_phos_df_def Let_def
    by (simp add: g1 g2 g3 g4 astype_int32_idem[OF h(2)] astype_int32_idem[OF h(6)]
        astype_int32_idem[OF h(8)] str_replace_comma_idem[OF h(4)] setitem_triv)
qed

theorem typecast_phos_df_idempotent_witness:
  "typecast_phos_df decimal_int32 raw_table = Inr cast_table
   \<and> typecast_phos_df decimal_int32 cast_table = Inr cast_table"
proof (rule conjI)
  show h: "typecast_phos_df decimal_int32 raw_table = Inr cast_table"
    by (rule typecast_raw_table)
  show "typecast_phos_df decimal_int32 cast_table = Inr cast_table"
    by (rule typecast_phos_df_idempotent[OF h])
qed

text \<open>
  C9. In every table that \<open>typecast_phos_df\<close> returns, the \<open>kinase_name\<close> column holds the
  strings of the input column with every comma replaced by a semicolon (the other
  characters kept, position by position), and none of them contains a comma.
\<close>

theorem typecast_phos_df_no_comma:
  assumes "typecast_phos_df conv df = Inr df'"
  shows "\<exists>raw. getitem df (Name ''kinase_name'') = Inr (ObjCol raw)
           \<and> getitem df' (Name ''kinase_name'') = Inr (ObjCol (map replace_comma raw))
           \<and> (\<forall>s \<in> set (map replace_comma raw). CHR '','' \<notin> set s)
           \<and> (\<forall>s \<in> set raw. length (replace_comma s) = length s
                 \<and> (\<forall>i < length s. replace_comma s ! i
                        = (if s ! i = CHR '','' then CHR '';'' else s ! i)))"
proof -
  from assms obtain s s' n n' k k' v v' where h:
    "getitem df (Name ''site'') = Inr s" "astype_int32 conv s = Inr s'"
    "getitem df (Name ''kinase_name'') = Inr n" "str_replace_comma n = Inr n'"
    "getitem df (Name ''kinexus_score'') = Inr k" "astype_int32 conv k = Inr k'"
    "getitem df (Name ''kinexus_score_v2'') = Inr v" "astype_int32 conv v = Inr v'"
    and df': "df' = setitem (setitem (setitem (setitem df (Name ''site'') s') (Name ''kinase_name'') n')
              (Name ''kinexus_score'') k') (Name ''kinexus_score_v2'') v'"
    by (rule typecast_phos_df_Inr)
  from h(4) obtain raw where n: "n = ObjCol raw" and n': "n' = ObjCol (map replace_comma raw)"
    by (cases n) auto
  have "getitem df' (Name ''kinase_name'') = Inr n'"
    by (simp add: df' getitem_setitem_other getitem_setitem_same)
  then show ?thesis using h(3) n n'
    by (auto simp: replace_comma_no_comma replace_comma_nth length_replace_comma)
qed

theorem typecast_phos_df_no_comma_witness:
  "typecast_phos_df decimal_int32 raw_table = Inr cast_table
   \<and> getitem raw_table (Name ''kinase_name'') = Inr (ObjCol [''Kin,aseA'', ''EGFR''])
   \<and> getitem cast_table (Name ''kinase_name'') = Inr (ObjCol [''Kin;aseA'', ''EGFR''])
   \<and> CHR '','' \<notin> set ''Kin;aseA'' \<and> CHR '','' \<notin> set ''EGFR''"
proof -
  have h: "typecast_phos_df decimal_int32 raw_table = Inr cast_table"
    by (rule typecast_raw_table)
  have r: "getitem raw_table (Name ''kinase_name'') = Inr (ObjCol [''Kin,aseA'', ''EGFR''])"
    by code_simp
  from typecast_phos_df_no_comma[OF h] obtain raw where
    raw: "getitem raw_table (Name ''kinase_name'') = Inr (ObjCol raw)"
    and cast: "getitem cast_table (Name ''kinase_name'') = Inr (ObjCol (map replace_comma raw))"
    and none: "\<forall>s \<in> set (map replace_comma raw). CHR '','' \<notin> set s"
    by blast
  from raw r have eq: "raw = [''Kin,aseA'', ''EGFR'']" by simp
  have m: "map replace_comma [''Kin,aseA'', ''EGFR''] = [''Kin;aseA'', ''EGFR'']"
    by (simp add: replace_comma_def)
  from cast eq m have c: "getitem cast_table (Name ''kinase_name'') = Inr (ObjCol [''Kin;aseA'', ''EGFR''])"
    by simp
  from none eq m have n: "CHR '','' \<notin> set ''Kin;aseA'' \<and> CHR '','' \<notin> set ''EGFR''"
    by simp
  show ?thesis using h r c n by simp
qed



section \<open>The inner loop stays inside the model\<close>

text \<open>
  \<open>get_kinases\<close> returns the empty list or an array of 50 rows and 7 columns, so every
  frame that \<open>kinase_array_to_df\<close> returns has the eight columns of \<open>kinase_dtypes\<close>.
  The frame that the inner loop accumulates is \<^verbatim>\<open>pd.DataFrame()\<close> or has these columns
  too: \<^verbatim>\<open>pd.concat\<close> always meets two frames of the same labels and dtypes, and
  \<open>NotModelled\<close> is never the outcome.
\<close>

lemma col_append_same: "dtype_of c = dtype_of c' \<Longrightarrow> \<exists>c''. col_append c c' = Some c'' \<and> dtype_of c'' = dtype_of c"
  by (cases c; cases c') auto

lemma concat_columns_same:
  "dtypes a = dtypes b \<Longrightarrow> \<exists>df. concat_columns a b = Some df \<and> dtypes df = dtypes a"
proof (induction a arbitrary: b)
  case Nil
  then show ?case by (simp add: dtypes_def)
next
  case (Cons p a)
  then obtain q b' where b: "b = q # b'" by (cases b) (auto simp: dtypes_def)
  obtain l c where p: "p = (l, c)" by (cases p)
  obtain l' c' where q: "q = (l', c')" by (cases q)
  from Cons.prems b p q have eq: "l = l'" "dtype_of c = dtype_of c'" "dtypes a = dtypes b'"
    by (simp_all add: dtypes_def)
  from col_append_same[OF eq(2)] obtain c'' where c'': "col_append c c' = Some c''" "dtype_of c'' = dtype_of c"
    by blast
  from Cons.IH[OF eq(3)] obtain df where df: "concat_columns a b' = Some df" "dtypes df = dtypes a"
    by blast
  show ?case using b p q eq c'' df by (simp add: dtypes_def)
qed

lemma get_kinases_result:
  assumes "get_kinases requests_get uid site base_url = Inr a"
  shows "a = PyList \<or> (\<exists>xs. a = Array2D 50 7 xs \<and> length xs = 350)"
  using assms
  by (auto simp: get_kinases_def Let_def reshape_def num_kinases_per_phos_def
       phos_column_values_def split: if_splits option.splits)

lemma kinase_array_to_df_dtypes:
  assumes "kinase_array_to_df (Array2D 50 7 xs) uid site = Inr df"
  shows "dtypes df = kinase_dtypes"
proof (cases site)
  case Nil
  then show ?thesis using assms by (simp add: kinase_array_to_df_no_site)
next
  case (Cons ch pos)
  show ?thesis using assms unfolding kinase_array_to_df_50_7[OF Cons]
    by (auto simp: dtypes_def kinase_dtypes_def)
qed

lemma site_step_modelled:
  assumes "df = [] \<or> dtypes df = kinase_dtypes"
  shows "site_step rg bs uid site df \<noteq> Inl NotModelled
       \<and> (\<forall>df'. site_step rg bs uid site df = Inr df' \<longrightarrow> dtypes df' = kinase_dtypes)"
proof (cases "get_kinases rg uid site phosphonet_kinase_url")
  case (Inl e)
  then have "e \<noteq> NotModelled"
    by (auto simp: get_kinases_def Let_def reshape_def split: if_splits option.splits)
  then show ?thesis using Inl by (simp add: site_step_def)
next
  case (Inr a)
  from get_kinases_result[OF Inr] show ?thesis
  proof
    assume "a = PyList"
    then show ?thesis using Inr by (simp add: site_step_def kinase_array_to_df_PyList)
  next
    assume "\<exists>xs. a = Array2D 50 7 xs \<and> length xs = 350"
    then obtain xs where a: "a = Array2D 50 7 xs" by blast
    show ?thesis
    proof (cases "kinase_array_to_df a uid site")
      case (Inl e)
      then have "e = IndexError" using a kinase_array_to_df_no_site[of xs uid]
          kinase_array_to_df_50_7[of site _ _ xs uid]
        by (cases site) auto
      then show ?thesis using Inr Inl by (simp add: site_step_def)
    next
      case k: (Inr kin)
      then have kd: "dtypes kin = kinase_dtypes" using a kinase_array_to_df_dtypes by simp
      show ?thesis
      proof (cases "empty df")
        case True
        then show ?thesis using Inr k kd by (simp add: site_step_def)
      next
        case False
        then have "dtypes df = dtypes kin" using assms kd by (auto simp: empty_def)
        from concat_columns_same[OF this] obtain d where
          "concat_columns df kin = Some d" "dtypes d = dtypes df" by blast
        then show ?thesis using Inr k kd False assms
          by (auto simp: site_step_def concat2_def empty_def)
      qed
    qed
  qed
qed

lemma site_loop_modelled:
  "df = [] \<or> dtypes df = kinase_dtypes \<Longrightarrow> site_loop rg bs uid sites df \<noteq> Inl NotModelled"
proof (induction sites arbitrary: df)
  case Nil
  then show ?case by simp
next
  case (Cons site sites)
  show ?case
  proof (cases "site_step rg bs uid site df")
    case (Inl e)
    then show ?thesis using site_step_modelled[OF Cons.prems, of rg bs uid site] by auto
  next
    case (Inr df')
    then have "dtypes df' = kinase_dtypes"
      using site_step_modelled[OF Cons.prems, of rg bs uid site] by simp
    then show ?thesis using Inr Cons.IH[of df'] by simp
  qed
qed

end
